theory Spec2Isabelle
  imports Complex_Main "HOL-Library.Code_Target_Nat"
begin

section \<open>JavaScript values used by the tip calculator\<close>

text \<open>
  A JavaScript number is modelled as an exact rational or \<open>NaN\<close>. Arithmetic on finite
  numbers is exact: the rounding error of binary64, overflow to an infinity and the sign
  of zero are not modelled (the specification leaves non-finite inputs to the caller).
  \<open>NaN\<close> is kept because the code itself produces it, from arithmetic on
  \<open>undefined\<close>, and tests for it through truthiness (\<open>x || 0\<close>, \<open>!x\<close>).
\<close>

datatype jsnum = Num rat | NaN

fun js_add :: "jsnum \<Rightarrow> jsnum \<Rightarrow> jsnum" where
  "js_add (Num a) (Num b) = Num (a + b)"
| "js_add _ _ = NaN"

fun js_sub :: "jsnum \<Rightarrow> jsnum \<Rightarrow> jsnum" where
  "js_sub (Num a) (Num b) = Num (a - b)"
| "js_sub _ _ = NaN"

fun js_mul :: "jsnum \<Rightarrow> jsnum \<Rightarrow> jsnum" where
  "js_mul (Num a) (Num b) = Num (a * b)"
| "js_mul _ _ = NaN"

text \<open>
  Division by zero gives an infinity or \<open>NaN\<close> in JavaScript. The two divisions of
  \<open>rounding.ts\<close> are by a sum tested positive and by an entry of \<open>ROUNDING_UNIT\<close>
  reached only for a mode other than \<open>none\<close>; the zero divisor is mapped to \<open>NaN\<close>.
\<close>

fun js_div :: "jsnum \<Rightarrow> jsnum \<Rightarrow> jsnum" where
  "js_div (Num a) (Num b) = (if b = 0 then NaN else Num (a / b))"
| "js_div _ _ = NaN"

text \<open>The comparisons \<open>a > b\<close>, \<open>a <= b\<close> and \<open>a === b\<close>: false as soon as one side is \<open>NaN\<close>.\<close>

fun js_gt :: "jsnum \<Rightarrow> jsnum \<Rightarrow> bool" where
  "js_gt (Num a) (Num b) = (b < a)"
| "js_gt _ _ = False"


fun strict_eq :: "jsnum \<Rightarrow> jsnum \<Rightarrow> bool" where
  "strict_eq (Num a) (Num b) = (a = b)"
| "strict_eq _ _ = False"

text \<open>\<open>ToBoolean\<close> of a number: \<open>0\<close> and \<open>NaN\<close> are falsy. \<open>js_or x d\<close> is \<open>x || d\<close>.\<close>

fun truthy :: "jsnum \<Rightarrow> bool" where
  "truthy (Num a) = (a \<noteq> 0)"
| "truthy NaN = False"

definition js_or :: "jsnum \<Rightarrow> jsnum \<Rightarrow> jsnum" where
  "js_or x d = (if truthy x then x else d)"

text \<open>\<open>ToNumber\<close> of a property read that may be \<open>undefined\<close>: \<open>undefined\<close> becomes \<open>NaN\<close>.\<close>

fun to_number :: "jsnum option \<Rightarrow> jsnum" where
  "to_number (Some x) = x"
| "to_number None = NaN"

text \<open>
  \<open>Math.round\<close> returns the closest integer, and of two equally close ones the one
  closer to plus infinity. \<open>Math.floor\<close> is the floor.
\<close>

fun Math_round :: "jsnum \<Rightarrow> jsnum" where
  "Math_round (Num a) = Num (of_int \<lfloor>a + 1 / 2\<rfloor>)"
| "Math_round NaN = NaN"

fun Math_floor :: "jsnum \<Rightarrow> jsnum" where
  "Math_floor (Num a) = Num (of_int \<lfloor>a\<rfloor>)"
| "Math_floor NaN = NaN"

text \<open>
  \<open>Number(x.toFixed(2))\<close>. \<open>toFixed\<close> strips the sign, takes the integer \<open>n\<close> for which
  \<open>n / 100\<close> is closest to the magnitude (the larger \<open>n\<close> of two equally close ones),
  prints it with two decimals and puts the sign back; \<open>Number\<close> reads the decimal. From
  \<open>10^21\<close> on \<open>toFixed\<close> prints the number as \<open>String\<close> does and \<open>Number\<close> reads the
  same value back; a binary64 value that large is an integer, so the result is the same
  multiple of \<open>1/100\<close>. \<open>NaN\<close> prints as the text NaN, which \<open>Number\<close> reads as \<open>NaN\<close>.
\<close>

definition round2 :: "rat \<Rightarrow> rat" where
  "round2 x = sgn x * of_int \<lfloor>\<bar>x\<bar> * 100 + 1 / 2\<rfloor> / 100"

fun Number_toFixed2 :: "jsnum \<Rightarrow> jsnum" where
  "Number_toFixed2 (Num a) = Num (round2 a)"
| "Number_toFixed2 NaN = NaN"

section \<open>The allocator: \<open>apps/web/src/utils/rounding.ts\<close>\<close>

text \<open>
  Strings are sequences of UTF-16 code units, as in JavaScript. The allocator only
  copies the string fields of a partner.
\<close>

type_synonym ustring = "nat list"

record Partner =
  partner_number :: ustring
  partner_global_id :: "ustring option"
  name :: ustring
  hours :: jsnum

record PartnerPayout = Partner +
  payout :: jsnum
  roundedPayout :: jsnum

record DistributeResult =
  payouts :: "PartnerPayout list"
  hourlyRate :: jsnum
  roundingDelta :: jsnum

text \<open>
  The type \<open>RoundingMode\<close> is a union of string literals, erased when the program runs:
  the mode is the token itself, and \<open>ROUNDING_UNIT[mode]\<close> is \<open>undefined\<close> for a token
  that is no key of the table.
\<close>

definition ROUNDING_UNIT :: "string \<Rightarrow> jsnum option" where
  "ROUNDING_UNIT = map_of
     [(''none'', Num 0),
      (''cent'', Num (1 / 100)),
      (''dime'', Num (1 / 10)),
      (''quarter'', Num (1 / 4)),
      (''dollar'', Num 1)]"

definition applyRounding :: "jsnum \<Rightarrow> string \<Rightarrow> jsnum" where
  "applyRounding val mode =
     (if mode = ''none'' then val
      else let unit = to_number (ROUNDING_UNIT mode)
           in js_mul (Math_round (js_div val unit)) unit)"

text \<open>
  \<open>hoursSum\<close>, \<open>safeHours\<close> and \<open>hourlyRate\<close> of \<open>distributeTips\<close>. The optional
  argument \<open>totalHours\<close> is \<open>None\<close> when it is \<open>undefined\<close>.
\<close>

definition hoursSum :: "Partner list \<Rightarrow> jsnum option \<Rightarrow> jsnum" where
  "hoursSum partners totalHours =
     (case totalHours of
        Some h \<Rightarrow> h
      | None \<Rightarrow> foldl (\<lambda>sum partner. js_add sum (js_or (hours partner) (Num 0))) (Num 0) partners)"

definition safeHours :: "Partner list \<Rightarrow> jsnum option \<Rightarrow> jsnum" where
  "safeHours partners totalHours =
     (if js_gt (hoursSum partners totalHours) (Num 0) then hoursSum partners totalHours else Num 0)"

definition rate :: "Partner list \<Rightarrow> jsnum \<Rightarrow> jsnum option \<Rightarrow> jsnum" where
  "rate partners totalTips totalHours =
     (if js_gt (safeHours partners totalHours) (Num 0)
      then js_div totalTips (safeHours partners totalHours) else Num 0)"

text \<open>The array \<open>payouts\<close> built by \<open>partners.map\<close>: exact and quantized share of each partner.\<close>

definition mkPayout :: "jsnum \<Rightarrow> string \<Rightarrow> Partner \<Rightarrow> PartnerPayout" where
  "mkPayout hourly rounding partner =
     (let payout = js_mul (js_or (hours partner) (Num 0)) hourly;
          roundedPayout = Number_toFixed2 (applyRounding payout rounding)
      in \<lparr>partner_number = partner_number partner,
          partner_global_id = partner_global_id partner,
          name = name partner,
          hours = hours partner,
          payout = payout,
          roundedPayout = roundedPayout\<rparr>)"

definition quantized :: "Partner list \<Rightarrow> jsnum \<Rightarrow> string \<Rightarrow> jsnum option \<Rightarrow> PartnerPayout list" where
  "quantized partners totalTips rounding totalHours =
     map (mkPayout (rate partners totalTips totalHours) rounding) partners"

text \<open>
  \<open>Array.prototype.sort\<close> with a comparator is stable, and a comparator result that is
  \<open>NaN\<close> counts as \<open>0\<close>: an element moves behind another one only when the comparator is
  positive. Insertion from the right end is such a sort.
\<close>

fun insert_by :: "('a \<Rightarrow> 'a \<Rightarrow> jsnum) \<Rightarrow> 'a \<Rightarrow> 'a list \<Rightarrow> 'a list" where
  "insert_by cmp x [] = [x]"
| "insert_by cmp x (y # ys) =
     (if js_gt (cmp x y) (Num 0) then y # insert_by cmp x ys else x # y # ys)"

definition sort_by :: "('a \<Rightarrow> 'a \<Rightarrow> jsnum) \<Rightarrow> 'a list \<Rightarrow> 'a list" where
  "sort_by cmp xs = foldr (insert_by cmp) xs []"

definition fraction :: "PartnerPayout \<Rightarrow> jsnum" where
  "fraction a = js_sub (payout a) (Math_floor (payout a))"

text \<open>
  \<open>[...payouts]\<close> copies the array, not the objects: \<open>sorted\<close> and \<open>payouts\<close> hold the
  same objects, and the assignment to \<open>sorted[0].roundedPayout\<close> shows in \<open>payouts\<close>.
  The objects live in a store, addressed by their index in \<open>payouts\<close>; the two arrays
  hold addresses.
\<close>

definition sorted_refs :: "PartnerPayout list \<Rightarrow> nat list" where
  "sorted_refs store =
     sort_by (\<lambda>a b. js_sub (fraction (store ! b)) (fraction (store ! a))) [0..<length store]"

definition roundedTotal :: "PartnerPayout list \<Rightarrow> jsnum" where
  "roundedTotal ps = foldl (\<lambda>sum partner. js_add sum (roundedPayout partner)) (Num 0) ps"

definition distributeTips ::
  "Partner list \<Rightarrow> jsnum \<Rightarrow> string \<Rightarrow> jsnum option \<Rightarrow> DistributeResult" where
  "distributeTips partners totalTips rounding totalHours =
     (let hourly = rate partners totalTips totalHours;
          store = quantized partners totalTips rounding totalHours
      in if rounding = ''none''
         then \<lparr>payouts = map (\<lambda>p. p\<lparr>roundedPayout := Number_toFixed2 (payout p)\<rparr>) store,
               hourlyRate = hourly, roundingDelta = Num 0\<rparr>
         else
           let delta = Number_toFixed2 (js_sub totalTips (roundedTotal store))
           in if strict_eq delta (Num 0)
              then \<lparr>payouts = store, hourlyRate = hourly, roundingDelta = Num 0\<rparr>
              else
                let store' =
                      (case sorted_refs store of
                         [] \<Rightarrow> store
                       | r # _ \<Rightarrow>
                           store[r := (store ! r)\<lparr>roundedPayout :=
                             Number_toFixed2 (js_add (roundedPayout (store ! r)) delta)\<rparr>])
                in \<lparr>payouts = map (\<lambda>r. store' ! r) [0..<length store],
                    hourlyRate = hourly, roundingDelta = delta\<rparr>)"

text \<open>
  The row that \<open>addPartner\<close> of the App appends, with \<open>h\<close> typed into its hours field:
  the partner used in the worked examples.
\<close>

definition blank_partner :: "jsnum \<Rightarrow> Partner" where
  "blank_partner h = \<lparr>partner_number = [], partner_global_id = Some [], name = [], hours = h\<rparr>"



section \<open>Regular expressions\<close>

text \<open>
  The extractor is four regular expressions. They are kept as data and run by a
  backtracking matcher that follows the pattern semantics of ECMAScript: a matcher maps
  a state (the text still to read and the captures so far) to the list of states in
  which it can end, in the order in which backtracking tries them; the first one for
  which the rest of the pattern succeeds is the match.
\<close>

definition lit :: "string \<Rightarrow> ustring" where
  "lit s = map of_char s"

text \<open>
  The classes \<open>\d\<close> and \<open>[0-9]\<close>, \<open>\s\<close> (white space and line terminators), \<open>.\<close> (all
  but the line terminators), \<open>[A-Z0-9]\<close>, and a single character.
\<close>

definition is_digit :: "nat \<Rightarrow> bool" where
  "is_digit c = (48 \<le> c \<and> c \<le> 57)"

definition is_space :: "nat \<Rightarrow> bool" where
  "is_space c = (c \<in> {9, 10, 11, 12, 13, 32, 160, 5760, 8232, 8233, 8239, 8287, 12288, 65279}
                 \<or> (8192 \<le> c \<and> c \<le> 8202))"

definition is_dot :: "nat \<Rightarrow> bool" where
  "is_dot c = (c \<notin> {10, 13, 8232, 8233})"

definition is_upper_alnum :: "nat \<Rightarrow> bool" where
  "is_upper_alnum c = ((65 \<le> c \<and> c \<le> 90) \<or> (48 \<le> c \<and> c \<le> 57))"

definition is_char :: "char \<Rightarrow> nat \<Rightarrow> bool" where
  "is_char ch c = (c = of_char ch)"

text \<open>
  Under the flag \<open>i\<close> a pattern character matches a code unit with the same
  canonical form. \<open>Canonicalize\<close> is the upper case of a single code unit, and never
  maps a code unit from 128 on to one below 128: for the ASCII characters of the
  patterns only the two ASCII cases of a letter match. The classes \<open>\s\<close>, \<open>\d\<close> and
  \<open>[0-9]\<close> hold no cased character and are the same with and without the flag.
\<close>

definition canonicalize :: "nat \<Rightarrow> nat" where
  "canonicalize c = (if 97 \<le> c \<and> c \<le> 122 then c - 32 else c)"

definition is_char_i :: "char \<Rightarrow> nat \<Rightarrow> bool" where
  "is_char_i ch c = (c < 128 \<and> canonicalize c = canonicalize (of_char ch))"

type_synonym caps = "nat \<Rightarrow> ustring option"

type_synonym mstate = "ustring \<times> caps"

datatype re =
    Chr "nat \<Rightarrow> bool"
  | Eps
  | Seq re re
  | Rep bool nat "nat option" re
  | Grp nat re
  | Bol
  | Eol

text \<open>
  \<open>RepeatMatcher\<close>: \<open>Rep greedy lo hi r\<close> is \<open>r{lo,hi}\<close> (\<open>hi = None\<close> for no upper bound),
  lazy when \<open>greedy\<close> is false. Once the minimum is reached, an iteration that reads
  nothing fails. No group of the patterns stands under a quantifier, so the reset of
  captures at each iteration is left out.
\<close>

fun dec_max :: "nat option \<Rightarrow> nat option" where
  "dec_max None = None"
| "dec_max (Some h) = Some (h - 1)"

function rep :: "bool \<Rightarrow> nat \<Rightarrow> nat option \<Rightarrow> (mstate \<Rightarrow> mstate list) \<Rightarrow> mstate \<Rightarrow> mstate list" where
  "rep greedy lo hi m x =
     (if hi = Some 0 then [x]
      else if lo \<noteq> 0 then concat (map (rep greedy (lo - 1) (dec_max hi) m) (m x))
      else
        let more = concat (map (\<lambda>y. if length (fst y) < length (fst x)
                                      then rep greedy 0 (dec_max hi) m y else []) (m x))
        in if greedy then more @ [x] else x # more)"
  by pat_completeness auto
termination
  apply (relation "measures [\<lambda>(g, lo, hi, m, x). lo, \<lambda>(g, lo, hi, m, x). length (fst x)]")
    apply simp
   apply simp
  apply simp
  done

text \<open>
  \<open>ms inp r x\<close>: the states in which \<open>r\<close> can end from state \<open>x\<close>, on the input \<open>inp\<close>.
  Without the flag \<open>m\<close>, \<open>^\<close> holds at the start of the input only and \<open>$\<close> at its end.
  A group captures the text read between its start and its end.
\<close>

primrec ms :: "ustring \<Rightarrow> re \<Rightarrow> mstate \<Rightarrow> mstate list" where
  "ms inp (Chr p) x =
     (case fst x of [] \<Rightarrow> [] | ch # s \<Rightarrow> if p ch then [(s, snd x)] else [])"
| "ms inp Eps x = [x]"
| "ms inp (Seq a b) x = concat (map (ms inp b) (ms inp a x))"
| "ms inp (Rep greedy lo hi r) x = rep greedy lo hi (ms inp r) x"
| "ms inp (Grp i r) x =
     map (\<lambda>y. (fst y, (snd y)(i \<mapsto> take (length (fst x) - length (fst y)) (fst x)))) (ms inp r x)"
| "ms inp Bol x = (if length (fst x) = length inp then [x] else [])"
| "ms inp Eol x = (if fst x = [] then [x] else [])"

text \<open>
  \<open>RegExp.prototype.exec\<close> and \<open>String.prototype.match\<close> for a pattern without the
  flags \<open>g\<close> and \<open>y\<close>: the match is tried at index 0, then 1, and so on up to the end
  of the input; the first index with a match gives the result, the captures.
\<close>

fun exec_from :: "re \<Rightarrow> ustring \<Rightarrow> ustring \<Rightarrow> caps option" where
  "exec_from r inp s =
     (case ms inp r (s, Map.empty) of
        y # _ \<Rightarrow> Some (snd y)
      | [] \<Rightarrow> (case s of [] \<Rightarrow> None | _ # s' \<Rightarrow> exec_from r inp s'))"

definition exec :: "re \<Rightarrow> ustring \<Rightarrow> caps option" where
  "exec r inp = exec_from r inp inp"

text \<open>
  \<open>match[i]\<close>. Every group of the four patterns stands outside any quantifier and
  alternative, so a match sets it; the empty text stands for \<open>undefined\<close>.
\<close>

definition group :: "caps \<Rightarrow> nat \<Rightarrow> ustring" where
  "group m i = (case m i of Some w \<Rightarrow> w | None \<Rightarrow> [])"

fun seqs :: "re list \<Rightarrow> re" where
  "seqs [] = Eps"
| "seqs [r] = r"
| "seqs (r # rs) = Seq r (seqs rs)"

definition chars_i :: "string \<Rightarrow> re" where
  "chars_i s = seqs (map (\<lambda>ch. Chr (is_char_i ch)) s)"

section \<open>The extractor: \<open>parseContent\<close> and \<open>parseManualText\<close>\<close>

text \<open>\<open>[0-9]+(?:\.[0-9]{1,2})?\<close>, the decimal of the partner and total hours patterns.\<close>

definition decimalRe :: re where
  "decimalRe =
     Seq (Rep True 1 None (Chr is_digit))
         (Rep True 0 (Some 1) (Seq (Chr (is_char CHR ''.'')) (Rep True 1 (Some 2) (Chr is_digit))))"

text \<open>\<open>/^(\d{4,6})\s+(.*?\S)\s+(US[A-Z0-9]+)\s+([0-9]+(?:\.[0-9]{1,2})?)$/\<close>\<close>

definition nameRe :: re where
  "nameRe = Seq (Rep False 0 None (Chr is_dot)) (Chr (\<lambda>c. \<not> is_space c))"

definition gidRe :: re where
  "gidRe = Seq (Chr (is_char CHR ''U''))
               (Seq (Chr (is_char CHR ''S'')) (Rep True 1 None (Chr is_upper_alnum)))"

definition partnerRegex :: re where
  "partnerRegex =
     Seq Bol
    (Seq (Grp 1 (Rep True 4 (Some 6) (Chr is_digit)))
    (Seq (Rep True 1 None (Chr is_space))
    (Seq (Grp 2 nameRe)
    (Seq (Rep True 1 None (Chr is_space))
    (Seq (Grp 3 gidRe)
    (Seq (Rep True 1 None (Chr is_space))
    (Seq (Grp 4 decimalRe)
         Eol)))))))"

text \<open>\<open>/Total Tippable Hours:\s*([0-9]+(?:\.[0-9]{1,2})?)/i\<close>\<close>

definition hoursRegex :: re where
  "hoursRegex =
     Seq (chars_i ''Total Tippable Hours:'')
    (Seq (Rep True 0 None (Chr is_space))
         (Grp 1 decimalRe))"

text \<open>\<open>/Store\s+#?(\d{4,6})/i\<close>\<close>

definition storeRegex :: re where
  "storeRegex =
     Seq (chars_i ''Store'')
    (Seq (Rep True 1 None (Chr is_space))
    (Seq (Rep True 0 (Some 1) (Chr (is_char CHR ''#'')))
         (Grp 1 (Rep True 4 (Some 6) (Chr is_digit)))))"

text \<open>
  \<open>/(\d{1,2}\/\d{1,2}\/\d{2,4})\s*[E-]\s*(\d{1,2}\/\d{1,2}\/\d{2,4})/\<close>, where \<open>E\<close>
  stands for the en dash U+2013: the class holds the en dash and the hyphen.
\<close>

definition en_dash :: nat where
  "en_dash = 8211"

definition dayRe :: re where
  "dayRe =
     Seq (Rep True 1 (Some 2) (Chr is_digit))
    (Seq (Chr (is_char CHR ''/''))
    (Seq (Rep True 1 (Some 2) (Chr is_digit))
    (Seq (Chr (is_char CHR ''/''))
         (Rep True 2 (Some 4) (Chr is_digit)))))"

definition dateRegex :: re where
  "dateRegex =
     Seq (Grp 1 dayRe)
    (Seq (Rep True 0 None (Chr is_space))
    (Seq (Chr (\<lambda>c. c = en_dash \<or> c = of_char CHR ''-''))
    (Seq (Rep True 0 None (Chr is_space))
         (Grp 2 dayRe))))"

text \<open>
  \<open>content.split(/\r?\n/)\<close>: the text is cut at every line feed, and a carriage return
  right before the line feed belongs to the cut. \<open>cur\<close> is the piece being read. The
  empty text gives one empty piece.
\<close>

fun split_lines :: "ustring \<Rightarrow> ustring \<Rightarrow> ustring list" where
  "split_lines cur [] = [cur]"
| "split_lines cur (c # cs) =
     (if c = 13 \<and> cs \<noteq> [] \<and> hd cs = 10 then cur # split_lines [] (tl cs)
      else if c = 10 then cur # split_lines [] cs
      else split_lines (cur @ [c]) cs)"

text \<open>\<open>String.prototype.trim\<close> removes white space and line terminators at both ends.\<close>

definition trim :: "ustring \<Rightarrow> ustring" where
  "trim s = rev (dropWhile is_space (rev (dropWhile is_space s)))"

definition lines_of :: "ustring \<Rightarrow> ustring list" where
  "lines_of content = filter (\<lambda>line. line \<noteq> []) (map trim (split_lines [] content))"

text \<open>
  \<open>Number.parseFloat\<close> reads the longest prefix that is a decimal literal, and gives
  \<open>NaN\<close> when there is none. The texts it is called on are captures of \<open>decimalRe\<close>:
  digits, with or without a fraction. Signs, exponents and \<open>Infinity\<close> cannot stand in
  such a capture and are not read here.
\<close>

definition digits_value :: "ustring \<Rightarrow> nat" where
  "digits_value ds = foldl (\<lambda>a d. 10 * a + (d - 48)) 0 ds"

definition parseFloat :: "ustring \<Rightarrow> jsnum" where
  "parseFloat s =
     (let ip = takeWhile is_digit s; rest = dropWhile is_digit s
      in if ip = [] then NaN
         else case rest of
           c # fs \<Rightarrow>
             if c = of_char CHR ''.''
             then let fp = takeWhile is_digit fs
                  in Num (of_nat (digits_value ip) + of_nat (digits_value fp) / 10 ^ length fp)
             else Num (of_nat (digits_value ip))
         | [] \<Rightarrow> Num (of_nat (digits_value ip)))"

text \<open>The loop over the lines: a line that matches pushes one partner.\<close>

definition partner_of_match :: "caps \<Rightarrow> Partner" where
  "partner_of_match m =
     \<lparr>partner_number = group m 1,
      partner_global_id = Some (group m 3),
      name = group m 2,
      hours = parseFloat (group m 4)\<rparr>"

definition push_partner :: "Partner list \<Rightarrow> ustring \<Rightarrow> Partner list" where
  "push_partner partners line =
     (case exec partnerRegex line of
        Some m \<Rightarrow> partners @ [partner_of_match m]
      | None \<Rightarrow> partners)"

definition parse_partners :: "ustring \<Rightarrow> Partner list" where
  "parse_partners content = foldl push_partner [] (lines_of content)"

definition no_partner_rows :: ustring where
  "no_partner_rows = lit ''No partner rows detected. Ensure the upload is a Tip Distribution Report.''"

definition total_hours_not_found :: ustring where
  "total_hours_not_found = lit ''Total tippable hours not found. You may need to enter them manually.''"

definition no_partner_rows_pasted :: ustring where
  "no_partner_rows_pasted = lit ''No partner rows detected in the pasted text.''"

text \<open>\<open>!totalHours\<close>: true for \<open>undefined\<close>, for \<open>0\<close> and for \<open>NaN\<close>.\<close>

fun js_not :: "jsnum option \<Rightarrow> bool" where
  "js_not None = True"
| "js_not (Some x) = (\<not> truthy x)"

record ParsedContent =
  partners :: "Partner list"
  totalHours :: "jsnum option"
  storeNumber :: "ustring option"
  timePeriod :: "ustring option"
  warnings :: "ustring list"

text \<open>\<open>parseContent\<close> of the Netlify function, \<open>apps/api/extract.ts\<close>.\<close>

definition parseContent :: "ustring \<Rightarrow> ParsedContent" where
  "parseContent content =
     (let partners = parse_partners content;
          totalHours = (case exec hoursRegex content of
                          Some hoursMatch \<Rightarrow> Some (parseFloat (group hoursMatch 1))
                        | None \<Rightarrow> None);
          storeNumber = (case exec storeRegex content of
                           Some storeMatch \<Rightarrow> Some (group storeMatch 1)
                         | None \<Rightarrow> None);
          timePeriod = (case exec dateRegex content of
                          Some dateMatch \<Rightarrow> Some (group dateMatch 1 @ [en_dash] @ group dateMatch 2)
                        | None \<Rightarrow> None);
          warnings1 = (if partners = [] then [no_partner_rows] else []);
          warnings2 = (if js_not totalHours then warnings1 @ [total_hours_not_found] else warnings1)
      in \<lparr>partners = partners, totalHours = totalHours, storeNumber = storeNumber,
          timePeriod = timePeriod, warnings = warnings2\<rparr>)"

text \<open>\<open>parseContent\<close> of the Vercel function, the same text in a second file.\<close>

definition parseContent_vercel :: "ustring \<Rightarrow> ParsedContent" where
  "parseContent_vercel content =
     (let partners = parse_partners content;
          totalHours = (case exec hoursRegex content of
                          Some hoursMatch \<Rightarrow> Some (parseFloat (group hoursMatch 1))
                        | None \<Rightarrow> None);
          storeNumber = (case exec storeRegex content of
                           Some storeMatch \<Rightarrow> Some (group storeMatch 1)
                         | None \<Rightarrow> None);
          timePeriod = (case exec dateRegex content of
                          Some dateMatch \<Rightarrow> Some (group dateMatch 1 @ [en_dash] @ group dateMatch 2)
                        | None \<Rightarrow> None);
          warnings1 = (if partners = [] then [no_partner_rows] else []);
          warnings2 = (if js_not totalHours then warnings1 @ [total_hours_not_found] else warnings1)
      in \<lparr>partners = partners, totalHours = totalHours, storeNumber = storeNumber,
          timePeriod = timePeriod, warnings = warnings2\<rparr>)"

text \<open>
  \<open>parseManualText\<close> of the web application: the same three scans, one warning only.
  Its result is a part of \<open>ExtractionResult\<close> (the field \<open>confidence\<close> is left out).
\<close>

record ExtractionResult =
  partners :: "Partner list"
  total_tippable_hours :: "jsnum option"
  store_number :: "ustring option"
  time_period :: "ustring option"
  warnings :: "ustring list"

definition parseManualText :: "ustring \<Rightarrow> ExtractionResult" where
  "parseManualText content =
     (let partners = parse_partners content;
          hoursMatch = exec hoursRegex content;
          storeMatch = exec storeRegex content;
          dateMatch = exec dateRegex content;
          warnings = (if partners = [] then [no_partner_rows_pasted] else [])
      in \<lparr>partners = partners,
          total_tippable_hours = (case hoursMatch of
                                    Some m \<Rightarrow> Some (parseFloat (group m 1)) | None \<Rightarrow> None),
          store_number = (case storeMatch of Some m \<Rightarrow> Some (group m 1) | None \<Rightarrow> None),
          time_period = (case dateMatch of
                           Some m \<Rightarrow> Some (group m 1 @ [en_dash] @ group m 2) | None \<Rightarrow> None),
          warnings = warnings\<rparr>)"

section \<open>Shapes of the texts that the patterns read\<close>

text \<open>
  The words that the patterns of the extractor read, stated without the matcher:
  they are what the claims about the extractor speak of. \<open>recognises r P\<close> says that the
  pattern \<open>r\<close>, started anywhere, reads exactly the words of \<open>P\<close> and leaves the captures
  as they are.
\<close>

definition in_max :: "nat option \<Rightarrow> nat \<Rightarrow> bool" where
  "in_max hi k = (case hi of None \<Rightarrow> True | Some h \<Rightarrow> k \<le> h)"















lemma payout_mkPayout [simp]:
  "payout (mkPayout h r p) = js_mul (js_or (hours p) (Num 0)) h"
  by (simp add: mkPayout_def Let_def)

lemma roundedPayout_mkPayout [simp]:
  "roundedPayout (mkPayout h r p) = Number_toFixed2 (applyRounding (js_mul (js_or (hours p) (Num 0)) h) r)"
  by (simp add: mkPayout_def Let_def)

lemma length_quantized [simp]: "length (quantized ps t r th) = length ps"
  by (simp add: quantized_def)

lemma length_insert_by [simp]: "length (insert_by cmp x xs) = Suc (length xs)"
  by (induction xs) auto

lemma set_insert_by [simp]: "set (insert_by cmp x xs) = insert x (set xs)"
  by (induction xs) auto


lemma set_sort_by [simp]: "set (sort_by cmp xs) = set xs"
  by (induction xs) (auto simp: sort_by_def)





lemma map_nth_upd: "length ys = n \<Longrightarrow> map (\<lambda>r. ys ! r) [0..<n] = ys"
  by (auto simp: map_nth)

lemma payouts_distributeTips:
  "payouts (distributeTips ps t r th) =
     (let Q = quantized ps t r th; d = Number_toFixed2 (js_sub t (roundedTotal Q)) in
      if r = ''none'' then map (\<lambda>p. p\<lparr>roundedPayout := Number_toFixed2 (payout p)\<rparr>) Q
      else if strict_eq d (Num 0) then Q
      else (case sorted_refs Q of [] \<Rightarrow> Q
            | k # _ \<Rightarrow> Q[k := (Q ! k)\<lparr>roundedPayout := Number_toFixed2 (js_add (roundedPayout (Q ! k)) d)\<rparr>]))"
  by (auto simp: distributeTips_def Let_def map_nth_upd split: list.splits)

lemma hourlyRate_distributeTips [simp]:
  "hourlyRate (distributeTips ps t r th) = rate ps t th"
  by (simp add: distributeTips_def Let_def)

lemma map_payout_update:
  "map payout (Q[k := (Q ! k)\<lparr>roundedPayout := v\<rparr>]) = map payout Q"
proof (cases "k < length Q")
  case True
  then show ?thesis by (simp add: map_update list_update_same_conv)
next
  case False
  then have "length Q \<le> k" by simp
  then show ?thesis by (simp only: list_update_beyond)
qed

lemma map_payout_distributeTips:
  "map payout (payouts (distributeTips ps t r th)) = map payout (quantized ps t r th)"
  by (auto simp: payouts_distributeTips Let_def map_payout_update comp_def split: list.splits)

lemma map_payout_quantized:
  "map payout (quantized ps t r th) = map (\<lambda>p. js_mul (js_or (hours p) (Num 0)) (rate ps t th)) ps"
  by (simp add: quantized_def comp_def)























lemma applyRounding_unknown:
  assumes "ROUNDING_UNIT rounding = None"
  shows "applyRounding v rounding = NaN"
proof -
  have "rounding \<noteq> ''none''" using assms by (auto simp: ROUNDING_UNIT_def)
  then show ?thesis using assms by (cases v) (simp_all add: applyRounding_def)
qed

section \<open>Claims about the allocator\<close>














text \<open>
  C9, as the code has it. \<open>distributeTips\<close> has no failing branch. For a token that is
  no key of \<open>ROUNDING_UNIT\<close> the unit is \<open>undefined\<close>, the call returns, and the rounded
  payout of every partner is \<open>NaN\<close>; the hourly rate and the exact payouts are those of
  any other mode.
\<close>

theorem unknown_mode_returns_NaN:
  assumes "ROUNDING_UNIT rounding = None"
  shows "map roundedPayout (payouts (distributeTips ps tips rounding override))
           = map (\<lambda>partner. NaN) ps
       \<and> map payout (payouts (distributeTips ps tips rounding override))
           = map (\<lambda>p. js_mul (js_or (hours p) (Num 0)) (rate ps tips override)) ps
       \<and> hourlyRate (distributeTips ps tips rounding override)
           = rate ps tips override"
proof -
  define Q where "Q = quantized ps tips rounding override"
  have Q: "map roundedPayout Q = map (\<lambda>p. NaN) ps"
    by (simp add: Q_def quantized_def comp_def applyRounding_unknown [OF assms])
  have upd: "map roundedPayout (Q[k := (Q ! k)\<lparr>roundedPayout := Number_toFixed2 (js_add (roundedPayout (Q ! k)) d)\<rparr>])
               = map (\<lambda>p. NaN) ps" for k d
  proof (cases "k < length Q")
    case True
    then have "roundedPayout (Q ! k) = NaN"
      using Q by (metis (no_types, lifting) length_map nth_map)
    then have "(Q ! k)\<lparr>roundedPayout := Number_toFixed2 (js_add (roundedPayout (Q ! k)) d)\<rparr> = Q ! k"
      by simp
    then show ?thesis using Q by (simp only: list_update_id)
  next
    case False
    then have "length Q \<le> k" by simp
    then show ?thesis using Q by (simp only: list_update_beyond)
  qed
  have "rounding \<noteq> ''none''" using assms by (auto simp: ROUNDING_UNIT_def)
  then have "map roundedPayout (payouts (distributeTips ps tips rounding override))
           = map (\<lambda>partner. NaN) ps"
    using Q upd by (simp add: payouts_distributeTips Let_def split: list.splits flip: Q_def)
  then show ?thesis by (simp add: map_payout_distributeTips map_payout_quantized)
qed

theorem unknown_mode_returns_NaN_witness:
  "ROUNDING_UNIT ''nickel'' = None
   \<and> map roundedPayout (payouts (distributeTips [blank_partner (Num 1), blank_partner (Num 3)]
        (Num 100) ''nickel'' None)) = [NaN, NaN]
   \<and> map payout (payouts (distributeTips [blank_partner (Num 1), blank_partner (Num 3)]
        (Num 100) ''nickel'' None)) = [Num 25, Num 75]
   \<and> hourlyRate (distributeTips [blank_partner (Num 1), blank_partner (Num 3)]
        (Num 100) ''nickel'' None) = Num 25"
proof -
  have h: "ROUNDING_UNIT ''nickel'' = None" by (simp add: ROUNDING_UNIT_def)
  have v: "rate [blank_partner (Num 1), blank_partner (Num 3)] (Num 100) None = Num 25"
    "js_mul (js_or (hours (blank_partner (Num 1))) (Num 0)) (Num 25) = Num 25"
    "js_mul (js_or (hours (blank_partner (Num 3))) (Num 0)) (Num 25) = Num 75"
    by code_simp+
  show ?thesis
    using unknown_mode_returns_NaN [OF h, of "[blank_partner (Num 1), blank_partner (Num 3)]" "Num 100" None]
      h v
    by simp
qed

text \<open>
  C9 as stated fails: a call with the token \<open>nickel\<close>, which is none of the five modes,
  returns a result value. Its rounded payout and its delta are \<open>NaN\<close>.
\<close>

theorem unknown_mode_counterexample:
  "distributeTips [blank_partner (Num 1)] (Num 100) ''nickel'' None =
     \<lparr>payouts = [\<lparr>partner_number = [], partner_global_id = Some [], name = [], hours = Num 1,
                  payout = Num 100, roundedPayout = NaN\<rparr>],
      hourlyRate = Num 100, roundingDelta = NaN\<rparr>"
  by code_simp

section \<open>What the matcher computes on the patterns of the extractor\<close>

declare rep.simps [simp del]

lemma in_max_simps [simp]:
  "in_max None k" "in_max (Some h) k = (k \<le> h)"
  by (simp_all add: in_max_def)


lemma ms_Chr_Nil: "ms inp (Chr p) ([], c) = []"
  by simp

lemma ms_Chr_Cons: "ms inp (Chr p) (x # s, c) = (if p x then [(s, c)] else [])"
  by simp

lemma ms_Eps: "ms inp Eps (s, c) = [(s, c)]"
  by simp

lemma ms_Seq: "ms inp (Seq a b) (s, c) = concat (map (ms inp b) (ms inp a (s, c)))"
  by simp

lemma ms_Rep: "ms inp (Rep g lo hi r) (s, c) = rep g lo hi (ms inp r) (s, c)"
  by simp

lemma ms_Grp:
  "ms inp (Grp i r) (s, c) =
     map (\<lambda>y. (fst y, (snd y)(i \<mapsto> take (length s - length (fst y)) s))) (ms inp r (s, c))"
  by simp

lemma ms_Bol: "ms inp Bol (s, c) = (if length s = length inp then [(s, c)] else [])"
  by simp

lemma ms_Eol: "ms inp Eol (s, c) = (if s = [] then [(s, c)] else [])"
  by simp

declare ms.simps [simp del]

declare ms_Chr_Nil [simp] ms_Chr_Cons [simp] ms_Eps [simp] ms_Seq [simp] ms_Rep [simp]
  ms_Grp [simp] ms_Bol [simp] ms_Eol [simp]

lemma in_max_0 [simp]: "in_max hi 0"
  by (cases hi) auto

lemma rep_Some_0 [simp]: "rep g lo (Some 0) m x = [x]"
  by (subst rep.simps) simp















lemma lit_simps [simp]:
  "lit [] = []" "lit (ch # s) = of_char ch # lit s"
  by (simp_all add: lit_def)


























declare exec_from.simps [simp del]













lemma trim_id:
  assumes "s \<noteq> []" and "\<not> is_space (hd s)" and "\<not> is_space (last s)"
  shows "trim s = s"
proof -
  have "dropWhile is_space s = s" using assms(1,2) by (cases s) simp_all
  moreover have "dropWhile is_space (rev s) = rev s"
    using assms(1,3) by (cases s rule: rev_cases) simp_all
  ultimately show ?thesis by (simp add: trim_def)
qed






















section \<open>Claims about the extractor\<close>

lemma partners_parseContent [simp]:
  "ParsedContent.partners (parseContent c) = parse_partners c"
  by (simp add: parseContent_def Let_def)

lemma partners_parseManualText [simp]:
  "ExtractionResult.partners (parseManualText c) = parse_partners c"
  by (simp add: parseManualText_def Let_def)













text \<open>
  Both copies of \<open>parseContent\<close> give the two diagnostics whenever their conditions hold;
  \<open>parseManualText\<close> gives the one for the partner rows.
\<close>

lemma parseContent_warnings:
  "(ParsedContent.partners (parseContent c) = [] \<longrightarrow>
      no_partner_rows \<in> set (ParsedContent.warnings (parseContent c)))
   \<and> (totalHours (parseContent c) = None \<longrightarrow>
      total_hours_not_found \<in> set (ParsedContent.warnings (parseContent c)))
   \<and> (ParsedContent.partners (parseContent_vercel c) = [] \<longrightarrow>
      no_partner_rows \<in> set (ParsedContent.warnings (parseContent_vercel c)))
   \<and> (totalHours (parseContent_vercel c) = None \<longrightarrow>
      total_hours_not_found \<in> set (ParsedContent.warnings (parseContent_vercel c)))
   \<and> (ExtractionResult.partners (parseManualText c) = [] \<longrightarrow>
      no_partner_rows_pasted \<in> set (ExtractionResult.warnings (parseManualText c)))"
  by (simp add: parseContent_def parseContent_vercel_def parseManualText_def Let_def
      split: option.splits)

text \<open>
  C3, at the pasted text \<open>12345 Smith, Alex J US98765432 31.45\<close>. \<open>parseManualText\<close>
  reads one partner and no total of tippable hours, and its warnings are empty: the
  diagnostic for the missing total is not there. \<open>parseContent\<close>, on the same text, gives
  that diagnostic.
\<close>

theorem manual_text_total_hours_warning_missing:
  "ExtractionResult.partners (parseManualText (lit ''12345 Smith, Alex J US98765432 31.45''))
     = [\<lparr>partner_number = lit ''12345'', partner_global_id = Some (lit ''US98765432''),
         name = lit ''Smith, Alex J'', hours = Num (629 / 20)\<rparr>]
   \<and> total_tippable_hours (parseManualText (lit ''12345 Smith, Alex J US98765432 31.45'')) = None
   \<and> ExtractionResult.warnings (parseManualText (lit ''12345 Smith, Alex J US98765432 31.45'')) = []
   \<and> totalHours (parseContent (lit ''12345 Smith, Alex J US98765432 31.45'')) = None
   \<and> ParsedContent.warnings (parseContent (lit ''12345 Smith, Alex J US98765432 31.45''))
       = [total_hours_not_found]"
  by code_simp

text \<open>
  C10. On every text the three extractors (\<open>parseContent\<close> of \<open>apps/api/extract.ts\<close>,
  its copy for the other host, and \<open>parseManualText\<close>) give the same partners, the same
  total of tippable hours, the same store number and the same time period.
\<close>

theorem extractors_agree:
  "ParsedContent.partners (parseContent c) = ParsedContent.partners (parseContent_vercel c)
   \<and> ParsedContent.partners (parseContent_vercel c) = ExtractionResult.partners (parseManualText c)
   \<and> totalHours (parseContent c) = totalHours (parseContent_vercel c)
   \<and> totalHours (parseContent_vercel c) = total_tippable_hours (parseManualText c)
   \<and> storeNumber (parseContent c) = storeNumber (parseContent_vercel c)
   \<and> storeNumber (parseContent_vercel c) = store_number (parseManualText c)
   \<and> timePeriod (parseContent c) = timePeriod (parseContent_vercel c)
   \<and> timePeriod (parseContent_vercel c) = time_period (parseManualText c)"
  by (simp add: parseContent_def parseContent_vercel_def parseManualText_def Let_def)

theorem extractors_agree_witness:
  "ParsedContent.partners (parseContent (lit ''Store #66900 10/13/2025-10/19/2025'' @ [10]
       @ lit ''12345 Smith, Alex J US98765432 31.45'' @ [13, 10] @ lit ''total tippable hours: 31.45''))
     = [\<lparr>partner_number = lit ''12345'', partner_global_id = Some (lit ''US98765432''),
         name = lit ''Smith, Alex J'', hours = Num (629 / 20)\<rparr>]
   \<and> ExtractionResult.partners (parseManualText (lit ''Store #66900 10/13/2025-10/19/2025'' @ [10]
       @ lit ''12345 Smith, Alex J US98765432 31.45'' @ [13, 10] @ lit ''total tippable hours: 31.45''))
     = [\<lparr>partner_number = lit ''12345'', partner_global_id = Some (lit ''US98765432''),
         name = lit ''Smith, Alex J'', hours = Num (629 / 20)\<rparr>]
   \<and> total_tippable_hours (parseManualText (lit ''Store #66900 10/13/2025-10/19/2025'' @ [10]
       @ lit ''12345 Smith, Alex J US98765432 31.45'' @ [13, 10] @ lit ''total tippable hours: 31.45''))
     = Some (Num (629 / 20))
   \<and> store_number (parseManualText (lit ''Store #66900 10/13/2025-10/19/2025'' @ [10]
       @ lit ''12345 Smith, Alex J US98765432 31.45'' @ [13, 10] @ lit ''total tippable hours: 31.45''))
     = Some (lit ''66900'')
   \<and> time_period (parseManualText (lit ''Store #66900 10/13/2025-10/19/2025'' @ [10]
       @ lit ''12345 Smith, Alex J US98765432 31.45'' @ [13, 10] @ lit ''total tippable hours: 31.45''))
     = Some (lit ''10/13/2025'' @ [en_dash] @ lit ''10/19/2025'')"
proof -
  let ?c = "lit ''Store #66900 10/13/2025-10/19/2025'' @ [10]
       @ lit ''12345 Smith, Alex J US98765432 31.45'' @ [13, 10] @ lit ''total tippable hours: 31.45''"
  have v: "ParsedContent.partners (parseContent ?c)
     = [\<lparr>partner_number = lit ''12345'', partner_global_id = Some (lit ''US98765432''),
         name = lit ''Smith, Alex J'', hours = Num (629 / 20)\<rparr>]"
    "totalHours (parseContent ?c) = Some (Num (629 / 20))"
    "storeNumber (parseContent ?c) = Some (lit ''66900'')"
    "timePeriod (parseContent ?c) = Some (lit ''10/13/2025'' @ [en_dash] @ lit ''10/19/2025'')"
    by code_simp+
  show ?thesis using extractors_agree [of ?c] v by (simp only:)
qed

end
